theory Spec2Isabelle
  imports Main "HOL-Library.Sublist"
begin

section \<open>Byte slices and the library functions of package bytes\<close>

text \<open>
  A Go \<open>[]byte\<close> is a list of 8-bit characters. \<open>len\<close> of a slice is its length,
  \<open>string(b)\<close> and \<open>[]byte(s)\<close> are the identity on this representation.
\<close>

type_synonym bytes = string

definition newline :: char where
  "newline = CHR 0x0A"

text \<open>
  \<open>bytes.Split(s, sep)\<close> for a separator of one byte (main.go only ever passes
  \<open>[]byte("\n")\<close>): look for the first separator, cut the piece before it, go on
  behind it; the rest without separator is the last piece. The result has one more
  element than \<open>s\<close> has separators, so it is never empty.
\<close>

function bytesSplit :: "bytes \<Rightarrow> char \<Rightarrow> bytes list" where
  "bytesSplit s sep =
     (case dropWhile (\<lambda>c. c \<noteq> sep) s of
        [] \<Rightarrow> [s]
      | _ # rest \<Rightarrow> takeWhile (\<lambda>c. c \<noteq> sep) s # bytesSplit rest sep)"
  by pat_completeness auto
termination
proof (relation "measure (\<lambda>(s, sep). length s)")
  show "wf (measure (\<lambda>(s, sep). length s))" by simp
next
  fix s :: bytes and sep x rest
  assume "dropWhile (\<lambda>c. c \<noteq> sep) s = x # rest"
  then have "length rest < length (dropWhile (\<lambda>c. c \<noteq> sep) s)" by simp
  also have "\<dots> \<le> length s" by (rule length_dropWhile_le)
  finally show "((rest, sep), (s, sep)) \<in> measure (\<lambda>(s, sep). length s)" by simp
qed

declare bytesSplit.simps [simp del]

text \<open>\<open>bytes.Join(s, sep)\<close>: the elements of \<open>s\<close> with \<open>sep\<close> between them; the
  empty slice of slices (also the nil one) gives the empty byte slice.\<close>

fun bytesJoin :: "bytes list \<Rightarrow> bytes \<Rightarrow> bytes" where
  "bytesJoin [] sep = []"
| "bytesJoin [x] sep = x"
| "bytesJoin (x # y # ys) sep = x @ sep @ bytesJoin (y # ys) sep"

text \<open>\<open>bytes.Contains(b, subslice)\<close>: whether \<open>subslice\<close> occurs in \<open>b\<close> at some
  position, compared byte by byte.\<close>

fun bytesContains :: "bytes \<Rightarrow> bytes \<Rightarrow> bool" where
  "bytesContains [] sub = (sub = [])"
| "bytesContains (c # cs) sub = (prefix sub (c # cs) \<or> bytesContains cs sub)"

section \<open>The sanitizer: filterNaNMetrics\<close>

text \<open>The loop of \<open>filterNaNMetrics\<close>: \<open>filtered\<close> starts empty and every line without
  the token is appended to it.\<close>

fun filterLoop :: "bytes list \<Rightarrow> bytes list \<Rightarrow> bytes list" where
  "filterLoop [] filtered = filtered"
| "filterLoop (line # rest) filtered =
     filterLoop rest
       (if \<not> bytesContains line ''NaN'' then filtered @ [line] else filtered)"

definition filterNaNMetrics :: "bytes \<Rightarrow> bytes" where
  "filterNaNMetrics metrics =
     (let lines = bytesSplit metrics newline;
          filtered = filterLoop lines []
      in bytesJoin filtered [newline])"

section \<open>The partition step of main\<close>

text \<open>
  Lines 136 to 140 of main.go: the sanitized payload is split at the line separator again,
  \<open>mid\<close> is the integer quotient \<open>n / 2\<close> of the line count (both are non-negative
  \<open>int\<close>s, so Go's truncating division is the floor), and the two slices
  \<open>lines[:mid]\<close> and \<open>lines[mid:]\<close> are joined with the separator. Since
  \<open>0 \<le> mid \<le> n\<close> neither slice expression can panic.
\<close>

definition firstLines :: "bytes \<Rightarrow> bytes list" where
  "firstLines filteredMetrics =
     (let lines = bytesSplit filteredMetrics newline;
          n = length lines;
          mid = n div 2
      in take mid lines)"

definition secondLines :: "bytes \<Rightarrow> bytes list" where
  "secondLines filteredMetrics =
     (let lines = bytesSplit filteredMetrics newline;
          n = length lines;
          mid = n div 2
      in drop mid lines)"

definition firstHalf :: "bytes \<Rightarrow> bytes" where
  "firstHalf filteredMetrics = bytesJoin (firstLines filteredMetrics) [newline]"

definition secondHalf :: "bytes \<Rightarrow> bytes" where
  "secondHalf filteredMetrics = bytesJoin (secondLines filteredMetrics) [newline]"

text \<open>
  The chunks that main hands to \<open>analyzeWithLLM\<close>, in the order of the calls: the test
  of line 134 chooses between the two halves (lines 143 and 150) and the whole payload
  (line 162).
\<close>

definition partition_chunks :: "bytes \<Rightarrow> bytes list" where
  "partition_chunks filteredMetrics =
     (if length filteredMetrics > 5000
      then [firstHalf filteredMetrics, secondHalf filteredMetrics]
      else [filteredMetrics])"

section \<open>The process and the world around it\<close>

text \<open>
  A Go \<open>error\<close> is the text its \<open>Error()\<close> method gives, which is all main.go ever
  does with one (it prints it).
\<close>

datatype error = Error (message: string)

text \<open>An HTTP request as main.go builds it, and what it reads of a response.
  \<open>Body\<close> is what \<open>ioutil.ReadAll(resp.Body)\<close> returns as data and \<open>BodyErr\<close> the
  error it returns with it (\<open>None\<close> for nil).\<close>

record request =
  reqMethod :: string
  reqURL :: string
  reqBody :: "bytes option"
  reqHeader :: "(string \<times> string) list"

record response =
  StatusCode :: nat
  Status :: string
  Body :: bytes
  BodyErr :: "error option"

text \<open>The anonymous struct \<open>llmResp\<close> that the response of the inference endpoint is
  decoded into, and the request payload of \<open>analyzeWithLLM\<close>.\<close>

record choice =
  Text :: string

record llmResp =
  Choices :: "choice list"
  Result :: string

record payload =
  model :: string
  prompt :: string
  max_tokens :: nat
  metadata :: "(string \<times> string) list"

text \<open>
  What the program takes from outside of main.go: the environment variables
  (\<open>os.Getenv\<close> gives the empty string for an unset one), the error of
  \<open>http.NewRequest\<close> on an address it cannot parse, the network (\<open>client.Do\<close>: the
  answer to a request, which may depend on the requests made before it), and package
  encoding/json (\<open>json.Unmarshal\<close> into \<open>llmResp\<close>, \<open>None\<close> for an error;
  \<open>json.Marshal\<close> of the payload).
\<close>

record world =
  getenv :: "string \<Rightarrow> string"
  urlError :: "string \<Rightarrow> error option"
  clientDo :: "request list \<Rightarrow> request \<Rightarrow> error + response"
  jsonUnmarshal :: "bytes \<Rightarrow> llmResp option"
  jsonMarshal :: "payload \<Rightarrow> bytes"

text \<open>The effects of a run: the requests handed to \<open>client.Do\<close>, in order, and what
  was written to standard output and standard error.\<close>

record state =
  issued :: "request list"
  stdout :: string
  stderr :: string

text \<open>\<open>os.Exit(code)\<close> ends the process wherever it is called; a function either
  does that or returns to its caller.\<close>

datatype 'a proc = Exit nat | Return 'a

definition fmtPrint :: "string \<Rightarrow> state \<Rightarrow> state" where
  "fmtPrint a s = s\<lparr>stdout := stdout s @ a\<rparr>"

text \<open>\<open>fmt.Println\<close> puts a space between its operands and a newline at the end.\<close>

fun spaced :: "string list \<Rightarrow> string" where
  "spaced [] = []"
| "spaced [a] = a"
| "spaced (a # b # bs) = a @ '' '' @ spaced (b # bs)"

definition fmtPrintln :: "string list \<Rightarrow> state \<Rightarrow> state" where
  "fmtPrintln as s = s\<lparr>stdout := stdout s @ spaced as @ [newline]\<rparr>"

definition fmtFprintlnStderr :: "string list \<Rightarrow> state \<Rightarrow> state" where
  "fmtFprintlnStderr as s = s\<lparr>stderr := stderr s @ spaced as @ [newline]\<rparr>"

text \<open>The decimal digits \<open>fmt.Println\<close> prints for a non-negative \<open>int\<close>.\<close>

function formatInt :: "nat \<Rightarrow> string" where
  "formatInt n =
     (if n < 10 then [''0123456789'' ! n]
      else formatInt (n div 10) @ [''0123456789'' ! (n mod 10)])"
  by pat_completeness auto
termination
  by (relation "measure (\<lambda>n. n)") auto

declare formatInt.simps [simp del]

text \<open>\<open>http.NewRequest(method, url, body)\<close> and \<open>req.Header.Set(key, value)\<close>.\<close>

definition httpNewRequest :: "world \<Rightarrow> string \<Rightarrow> string \<Rightarrow> bytes option \<Rightarrow> error + request" where
  "httpNewRequest w method' url body =
     (case urlError w url of
        Some err \<Rightarrow> Inl err
      | None \<Rightarrow> Inr \<lparr>reqMethod = method', reqURL = url, reqBody = body, reqHeader = []\<rparr>)"

definition headerSet :: "string \<Rightarrow> string \<Rightarrow> request \<Rightarrow> request" where
  "headerSet k v req =
     req\<lparr>reqHeader := filter (\<lambda>kv. fst kv \<noteq> k) (reqHeader req) @ [(k, v)]\<rparr>"

section \<open>Configuration: getVaultMetricsURL and getLLMAPIURL\<close>

definition getVaultMetricsURL :: "world \<Rightarrow> string" where
  "getVaultMetricsURL w =
     (let vaultAddr = getenv w ''VAULT_ADDR'';
          vaultAddr = (if vaultAddr = [] then ''http://127.0.0.1:8200'' else vaultAddr)
      in vaultAddr @ ''/v1/sys/metrics?format=prometheus'')"

definition getLLMAPIURL :: "world \<Rightarrow> state \<Rightarrow> string proc \<times> state" where
  "getLLMAPIURL w s =
     (let llmURL = getenv w ''LLM_URL''
      in if llmURL = []
         then (Exit 1, fmtFprintlnStderr [''LLM_URL environment variable not set''] s)
         else (Return llmURL, s))"

section \<open>The fetcher: fetchVaultMetrics\<close>

text \<open>The function returns the pair \<open>([]byte, error)\<close>; a nil slice is the empty
  list and a nil error is \<open>None\<close>.\<close>

definition fetchVaultMetrics :: "world \<Rightarrow> state \<Rightarrow> (bytes \<times> error option) \<times> state" where
  "fetchVaultMetrics w s =
     (let vaultToken = getenv w ''VAULT_TOKEN''
      in if vaultToken = []
         then (([], Some (Error ''VAULT_TOKEN environment variable not set'')), s)
         else
           (case httpNewRequest w ''GET'' (getVaultMetricsURL w) None of
              Inl err \<Rightarrow> (([], Some err), s)
            | Inr req0 \<Rightarrow>
                (let req = headerSet ''X-Vault-Token'' vaultToken req0;
                     s' = s\<lparr>issued := issued s @ [req]\<rparr>
                 in case clientDo w (issued s) req of
                      Inl err \<Rightarrow> (([], Some err), s')
                    | Inr resp \<Rightarrow> ((Body resp, BodyErr resp), s'))))"

section \<open>The narrator: analyzeWithLLM\<close>

definition llmPrompt :: "bytes \<Rightarrow> string" where
  "llmPrompt metrics =
     ''Analyze the following Vault server metrics for a human reader.'' @ [newline] @
     ''- Summarize the overall health and status in clear, simple language.'' @ [newline] @
     ''- Highlight any anomalies, errors, or warnings.'' @ [newline] @
     ''- Suggest possible causes and recommended actions if issues are found.'' @ [newline] @
     ''- Make the summary concise, actionable, and easy to understand for someone without deep technical knowledge.'' @ [newline] @
     [newline] @
     ''Metrics:'' @ [newline] @
     metrics"

definition llmPayload :: "bytes \<Rightarrow> payload" where
  "llmPayload metrics =
     \<lparr>model = ''qwen2.5-32b-instruct'',
      prompt = llmPrompt metrics,
      max_tokens = 20000,
      metadata = [(''trace_name'', ''team_bot'')]\<rparr>"

text \<open>
  The result is \<open>(string, error)\<close>: \<open>Inl\<close> the error (with the empty string, which
  no caller reads), \<open>Inr\<close> the narration with a nil error. The second parameter
  \<open>logs\<close> is never read. The address is looked up while the arguments of
  \<open>http.NewRequest\<close> are evaluated (line 80), where \<open>getLLMAPIURL\<close> may end the
  process.
\<close>

definition analyzeWithLLM :: "world \<Rightarrow> bytes \<Rightarrow> bytes \<Rightarrow> state \<Rightarrow> (error + string) proc \<times> state" where
  "analyzeWithLLM w metrics logs s =
     (let body = jsonMarshal w (llmPayload metrics)
      in case getLLMAPIURL w s of
           (Exit code, s1) \<Rightarrow> (Exit code, s1)
         | (Return url, s1) \<Rightarrow>
             (case httpNewRequest w ''POST'' url (Some body) of
                Inl err \<Rightarrow> (Return (Inl err), s1)
              | Inr req0 \<Rightarrow>
                  (let llmToken = getenv w ''LLM_TOKEN''
                   in if llmToken = []
                      then (Return (Inl (Error ''LLM_TOKEN environment variable not set'')), s1)
                      else
                        (let req1 = headerSet ''Authorization'' (''Bearer '' @ llmToken) req0;
                             req = headerSet ''Content-Type'' ''application/json'' req1;
                             s2 = s1\<lparr>issued := issued s1 @ [req]\<rparr>
                         in case clientDo w (issued s1) req of
                              Inl err \<Rightarrow> (Return (Inl err), s2)
                            | Inr resp \<Rightarrow>
                                (let result = Body resp
                                 in if StatusCode resp \<noteq> 200
                                    then (Return (Inl (Error (''LLM API error: '' @ Status resp @
                                                             [newline] @ result))), s2)
                                    else
                                      (case jsonUnmarshal w result of
                                         Some r \<Rightarrow>
                                           (if length (Choices r) > 0 \<and> Text (Choices r ! 0) \<noteq> []
                                            then (Return (Inr (Text (Choices r ! 0))), s2)
                                            else if Result r \<noteq> []
                                            then (Return (Inr (Result r)), s2)
                                            else (Return (Inr result), s2))
                                       | None \<Rightarrow> (Return (Inr result), s2)))))))"

section \<open>The orchestrator: main\<close>

definition initState :: state where
  "initState = \<lparr>issued = [], stdout = [], stderr = []\<rparr>"

text \<open>A run gives the exit status of the process (0 when main returns) and the effects
  it had.\<close>

definition main :: "world \<Rightarrow> nat \<times> state" where
  "main w =
     (case fetchVaultMetrics w initState of
        ((metrics, err), s0) \<Rightarrow>
          (let s1 = fmtPrint (''Fetching Vault metrics...'' @ [newline]) s0
           in case err of
                Some e \<Rightarrow> (1, fmtPrintln [''Error fetching metrics:'', message e] s1)
              | None \<Rightarrow>
                  (let filteredMetrics = filterNaNMetrics metrics;
                       s2 = fmtPrintln [''len(filteredMetrics):'',
                                        formatInt (length filteredMetrics)] s1
                   in if length filteredMetrics > 5000
                      then
                        (let s3 = fmtPrint (''analysis data for first half...'' @ [newline]) s2
                         in case analyzeWithLLM w (firstHalf filteredMetrics) [] s3 of
                              (Exit code, s4) \<Rightarrow> (code, s4)
                            | (Return (Inl e), s4) \<Rightarrow>
                                (1, fmtPrintln [''Error analyzing first half with LLM:'',
                                                message e] s4)
                            | (Return (Inr analysis1), s4) \<Rightarrow>
                                (let s5 = fmtPrint (''analysis data for second half...'' @
                                                    [newline]) s4
                                 in case analyzeWithLLM w (secondHalf filteredMetrics) [] s5 of
                                      (Exit code, s6) \<Rightarrow> (code, s6)
                                    | (Return (Inl e), s6) \<Rightarrow>
                                        (1, fmtPrintln [''Error analyzing second half with LLM:'',
                                                        message e] s6)
                                    | (Return (Inr analysis2), s6) \<Rightarrow>
                                        (0, fmtPrintln [analysis2]
                                             (fmtPrintln [[newline] @
                                                          ''LLM Analysis Result (Second Half):'']
                                               (fmtPrintln [analysis1]
                                                 (fmtPrintln [''LLM Analysis Result (First Half):'']
                                                    s6))))))
                      else
                        (let s3 = fmtPrint (''analysis data for all metrics...'' @ [newline]) s2
                         in case analyzeWithLLM w filteredMetrics [] s3 of
                              (Exit code, s4) \<Rightarrow> (code, s4)
                            | (Return (Inl e), s4) \<Rightarrow>
                                (1, fmtPrintln [''Error analyzing metrics with LLM:'',
                                                message e] s4)
                            | (Return (Inr analysis), s4) \<Rightarrow>
                                (0, fmtPrintln [analysis]
                                     (fmtPrintln [''LLM Analysis Result:''] s4))))))"

section \<open>The requests a run can issue\<close>

text \<open>
  The request \<open>fetchVaultMetrics\<close> hands to \<open>client.Do\<close> once the credential is
  there and the address parses, and the one \<open>analyzeWithLLM\<close> hands to it for a chunk
  once address and bearer credential are there: what lines 35 to 39 and lines 80 to 89
  build.
\<close>

definition vaultRequest :: "world \<Rightarrow> request" where
  "vaultRequest w =
     headerSet ''X-Vault-Token'' (getenv w ''VAULT_TOKEN'')
       \<lparr>reqMethod = ''GET'', reqURL = getVaultMetricsURL w, reqBody = None, reqHeader = []\<rparr>"

definition llmRequest :: "world \<Rightarrow> bytes \<Rightarrow> request" where
  "llmRequest w metrics =
     headerSet ''Content-Type'' ''application/json''
       (headerSet ''Authorization'' (''Bearer '' @ getenv w ''LLM_TOKEN'')
          \<lparr>reqMethod = ''POST'', reqURL = getenv w ''LLM_URL'',
           reqBody = Some (jsonMarshal w (llmPayload metrics)), reqHeader = []\<rparr>)"

text \<open>The narrator's configuration is complete: the address is set and parses, and the
  bearer credential is set.\<close>

definition llmConfigured :: "world \<Rightarrow> bool" where
  "llmConfigured w \<longleftrightarrow>
     getenv w ''LLM_URL'' \<noteq> [] \<and> urlError w (getenv w ''LLM_URL'') = None \<and>
     getenv w ''LLM_TOKEN'' \<noteq> []"

text \<open>What main has written to standard output when it reaches the test of line 134:
  lines 126 and 133, for the sanitized payload \<open>f\<close>.\<close>

definition banner :: "bytes \<Rightarrow> string" where
  "banner f = ''Fetching Vault metrics...'' @ [newline] @
              ''len(filteredMetrics): '' @ formatInt (length f) @ [newline]"

section \<open>Sample inputs\<close>

text \<open>Three metric lines, the second with the undefined-value token and the third with
  the same letters in lower case; and the same payload without the second line.\<close>

definition sampleMetrics :: bytes where
  "sampleMetrics = ''a 1'' @ [newline] @ ''b NaN'' @ [newline] @ ''c nan''"

definition sampleClean :: bytes where
  "sampleClean = ''a 1'' @ [newline] @ ''c nan''"

text \<open>A payload above the threshold of 5000 bytes with four lines of very different
  lengths, and one above the threshold that is a single line.\<close>

definition sampleBig :: bytes where
  "sampleBig = replicate 5000 (CHR ''a'') @ [newline] @ ''b'' @ [newline] @ ''c'' @
               [newline] @ ''d''"


text \<open>
  Sample worlds. The environment is a table of variables. The network answers a GET with
  the metrics endpoint's answer and the k-th POST of the run with the k-th answer of the
  inference endpoint (none left: the connection fails). The decoder knows three bodies:
  one with a first choice text, one with only a result field, one with neither; it
  rejects everything else. The encoder writes model and prompt, without escaping.
\<close>

definition envOf :: "(string \<times> string) list \<Rightarrow> string \<Rightarrow> string" where
  "envOf kvs k = (case map_of kvs k of Some v \<Rightarrow> v | None \<Rightarrow> [])"

definition sampleNet ::
  "(error + response) \<Rightarrow> (error + response) list \<Rightarrow> request list \<Rightarrow> request \<Rightarrow> error + response" where
  "sampleNet vault llm h r =
     (if reqMethod r = ''GET'' then vault
      else (let k = length (filter (\<lambda>q. reqMethod q = ''POST'') h)
            in if k < length llm then llm ! k else Inl (Error ''connection refused'')))"

definition dq :: char where
  "dq = CHR 0x22"

definition quoted :: "string \<Rightarrow> string" where
  "quoted a = [dq] @ a @ [dq]"

definition choiceBody :: bytes where
  "choiceBody = ''{'' @ quoted ''choices'' @ '':[{'' @ quoted ''text'' @ '':'' @
                quoted ''All good'' @ ''}]}''"

definition resultBody :: bytes where
  "resultBody = ''{'' @ quoted ''choices'' @ '':[],'' @ quoted ''result'' @ '':'' @
                quoted ''Healthy'' @ ''}''"

definition emptyBody :: bytes where
  "emptyBody = ''{}''"

definition sampleUnmarshal :: "bytes \<Rightarrow> llmResp option" where
  "sampleUnmarshal b =
     (if b = choiceBody then Some \<lparr>Choices = [\<lparr>Text = ''All good''\<rparr>], Result = []\<rparr>
      else if b = resultBody then Some \<lparr>Choices = [], Result = ''Healthy''\<rparr>
      else if b = emptyBody then Some \<lparr>Choices = [], Result = []\<rparr>
      else None)"

definition sampleMarshal :: "payload \<Rightarrow> bytes" where
  "sampleMarshal p = ''{'' @ quoted ''model'' @ '':'' @ quoted (model p) @ '','' @
                     quoted ''prompt'' @ '':'' @ quoted (prompt p) @ ''}''"

definition sampleWorld ::
  "(string \<times> string) list \<Rightarrow> (error + response) \<Rightarrow> (error + response) list \<Rightarrow> world" where
  "sampleWorld kvs vault llm =
     \<lparr>getenv = envOf kvs, urlError = (\<lambda>u. None), clientDo = sampleNet vault llm,
      jsonUnmarshal = sampleUnmarshal, jsonMarshal = sampleMarshal\<rparr>"

definition fullEnv :: "(string \<times> string) list" where
  "fullEnv = [(''VAULT_TOKEN'', ''s.token''), (''LLM_URL'', ''http://llm.local/v1''),
              (''LLM_TOKEN'', ''key'')]"

definition okResponse :: "bytes \<Rightarrow> error + response" where
  "okResponse b = Inr \<lparr>StatusCode = 200, Status = ''200 OK'', Body = b, BodyErr = None\<rparr>"

definition unavailable :: "error + response" where
  "unavailable = Inr \<lparr>StatusCode = 503, Status = ''503 Service Unavailable'',
                       Body = ''overloaded'', BodyErr = None\<rparr>"

text \<open>Worlds with every variable set whose metrics endpoint serves \<open>sampleBig\<close> and
  \<open>sampleClean\<close>; a world without the narrator's address; a world with no variable
  set at all.\<close>

definition bigWorld :: "(error + response) list \<Rightarrow> world" where
  "bigWorld llm = sampleWorld fullEnv (okResponse sampleBig) llm"

definition smallWorld :: "(error + response) list \<Rightarrow> world" where
  "smallWorld llm = sampleWorld fullEnv (okResponse sampleClean) llm"

definition noURLWorld :: world where
  "noURLWorld = sampleWorld [(''VAULT_TOKEN'', ''s.token'')] (okResponse sampleClean) []"

definition bareWorld :: world where
  "bareWorld = sampleWorld [] (okResponse sampleClean) []"

section \<open>Facts about splitting and joining\<close>

lemma bytesSplit_Nil: "bytesSplit [] sep = [[]]"
  by (simp add: bytesSplit.simps)

lemma bytesSplit_sep: "bytesSplit (sep # cs) sep = [] # bytesSplit cs sep"
  by (subst bytesSplit.simps) simp

lemma bytesSplit_not_Nil: "bytesSplit s sep \<noteq> []"
  by (subst bytesSplit.simps) (simp split: list.split)

lemma bytesSplit_other:
  assumes "c \<noteq> sep"
  shows "bytesSplit (c # cs) sep = (c # hd (bytesSplit cs sep)) # tl (bytesSplit cs sep)"
proof (cases "dropWhile (\<lambda>c. c \<noteq> sep) cs")
  case Nil
  have "bytesSplit (c # cs) sep = [c # cs]"
    by (subst bytesSplit.simps) (simp add: assms Nil del: dropWhile_eq_Nil_conv)
  moreover have "bytesSplit cs sep = [cs]"
    by (subst bytesSplit.simps) (simp add: Nil del: dropWhile_eq_Nil_conv)
  ultimately show ?thesis by simp
next
  case (Cons x rest)
  have "bytesSplit (c # cs) sep =
          (c # takeWhile (\<lambda>c. c \<noteq> sep) cs) # bytesSplit rest sep"
    by (subst bytesSplit.simps) (simp add: assms Cons)
  moreover have "bytesSplit cs sep = takeWhile (\<lambda>c. c \<noteq> sep) cs # bytesSplit rest sep"
    by (subst bytesSplit.simps) (simp add: Cons)
  ultimately show ?thesis by simp
qed

lemma bytesJoin_Cons:
  "ls \<noteq> [] \<Longrightarrow> bytesJoin (l # ls) sep = l @ sep @ bytesJoin ls sep"
  by (cases ls) simp_all

lemma bytesJoin_hd_tl:
  assumes "ls \<noteq> []"
  shows "bytesJoin ((c # hd ls) # tl ls) sep = c # bytesJoin ls sep"
proof -
  from assms obtain a rest where ls: "ls = a # rest" by (cases ls) auto
  show ?thesis unfolding ls by (cases rest) simp_all
qed

lemma bytesJoin_bytesSplit: "bytesJoin (bytesSplit s sep) [sep] = s"
proof (induction s)
  case Nil
  show ?case by (simp add: bytesSplit_Nil)
next
  case (Cons c cs)
  show ?case
  proof (cases "c = sep")
    case True
    then show ?thesis
      using Cons by (simp add: bytesSplit_sep bytesJoin_Cons bytesSplit_not_Nil)
  next
    case False
    then show ?thesis
      using Cons by (simp add: bytesSplit_other bytesJoin_hd_tl bytesSplit_not_Nil)
  qed
qed

lemma bytesSplit_no_sep: "sep \<notin> set l \<Longrightarrow> bytesSplit l sep = [l]"
  by (induction l) (auto simp: bytesSplit_Nil bytesSplit_other)

lemma bytesSplit_append_sep:
  "sep \<notin> set l \<Longrightarrow> bytesSplit (l @ sep # r) sep = l # bytesSplit r sep"
  by (induction l) (auto simp: bytesSplit_sep bytesSplit_other)

lemma bytesSplit_line_no_sep: "l \<in> set (bytesSplit s sep) \<Longrightarrow> sep \<notin> set l"
proof (induction s arbitrary: l)
  case Nil
  then show ?case by (simp add: bytesSplit_Nil)
next
  case (Cons c cs)
  show ?case
  proof (cases "c = sep")
    case True
    with Cons show ?thesis by (auto simp: bytesSplit_sep)
  next
    case False
    have ne: "bytesSplit cs sep \<noteq> []" by (rule bytesSplit_not_Nil)
    from Cons.prems False
    have "l = c # hd (bytesSplit cs sep) \<or> l \<in> set (tl (bytesSplit cs sep))"
      by (simp add: bytesSplit_other)
    then show ?thesis
    proof
      assume "l = c # hd (bytesSplit cs sep)"
      moreover have "sep \<notin> set (hd (bytesSplit cs sep))"
        using Cons.IH [of "hd (bytesSplit cs sep)"] ne by simp
      ultimately show ?thesis using False by auto
    next
      assume "l \<in> set (tl (bytesSplit cs sep))"
      then have "l \<in> set (bytesSplit cs sep)" by (rule list.set_sel(2) [OF ne])
      then show ?thesis by (rule Cons.IH)
    qed
  qed
qed

lemma bytesSplit_bytesJoin:
  "ls \<noteq> [] \<Longrightarrow> \<forall>l\<in>set ls. sep \<notin> set l \<Longrightarrow> bytesSplit (bytesJoin ls [sep]) sep = ls"
proof (induction ls "[sep]" rule: bytesJoin.induct)
  case 1
  then show ?case by simp
next
  case (2 x)
  then show ?case by (simp add: bytesSplit_no_sep)
next
  case (3 x y ys)
  then show ?case by (simp add: bytesSplit_append_sep)
qed

lemma filterLoop_eq:
  "filterLoop ls acc = acc @ filter (\<lambda>l. \<not> bytesContains l ''NaN'') ls"
  by (induction ls arbitrary: acc) simp_all

lemma bytesContains_sublist: "bytesContains s sub \<longleftrightarrow> sublist sub s"
  by (induction s) (simp_all add: sublist_Cons_right)

lemma bytesSplit_line_sublist: "l \<in> set (bytesSplit s sep) \<Longrightarrow> sublist l s"
proof (induction s sep rule: bytesSplit.induct)
  case (1 s sep)
  show ?case
  proof (cases "dropWhile (\<lambda>c. c \<noteq> sep) s")
    case Nil
    with "1.prems" have "l = s"
      by (subst (asm) bytesSplit.simps) (simp del: dropWhile_eq_Nil_conv)
    then show ?thesis by simp
  next
    case (Cons x rest)
    with "1.prems" have "l = takeWhile (\<lambda>c. c \<noteq> sep) s \<or> l \<in> set (bytesSplit rest sep)"
      by (subst (asm) bytesSplit.simps) simp
    then show ?thesis
    proof
      assume "l = takeWhile (\<lambda>c. c \<noteq> sep) s"
      then show ?thesis by simp
    next
      assume "l \<in> set (bytesSplit rest sep)"
      then have "sublist l rest" using "1.IH" Cons by simp
      moreover have "s = (takeWhile (\<lambda>c. c \<noteq> sep) s @ [x]) @ rest"
        using takeWhile_dropWhile_id [of "\<lambda>c. c \<noteq> sep" s] Cons by simp
      then have "suffix rest s" by (metis suffixI)
      ultimately show ?thesis
        using suffix_imp_sublist sublist_order.order_trans by blast
    qed
  qed
qed

section \<open>The sanitizer keeps exactly the lines without the token\<close>

lemma filterNaNMetrics_eq:
  "filterNaNMetrics m =
     bytesJoin (filter (\<lambda>l. \<not> sublist ''NaN'' l) (bytesSplit m newline)) [newline]"
  by (simp add: filterNaNMetrics_def filterLoop_eq bytesContains_sublist)

lemma kept_no_newline:
  "\<forall>l\<in>set (filter P (bytesSplit m newline)). newline \<notin> set l"
  by (auto dest: bytesSplit_line_no_sep)

lemma split_filterNaNMetrics:
  assumes "filter (\<lambda>l. \<not> sublist ''NaN'' l) (bytesSplit m newline) \<noteq> []"
  shows "bytesSplit (filterNaNMetrics m) newline =
           filter (\<lambda>l. \<not> sublist ''NaN'' l) (bytesSplit m newline)"
  unfolding filterNaNMetrics_eq
  by (rule bytesSplit_bytesJoin [OF assms kept_no_newline])

lemma bytesSplit_sampleMetrics:
  "bytesSplit sampleMetrics newline = [''a 1'', ''b NaN'', ''c nan'']"
  by (simp add: sampleMetrics_def bytesSplit_sep bytesSplit_other bytesSplit_Nil newline_def)

text \<open>
  Claim C3. For every raw metrics input, \<open>filterNaNMetrics\<close> keeps a line if and only if
  the line does not contain the token \<open>NaN\<close> as a contiguous block of bytes, compared
  case-sensitively: its result is the join, with the line separator, of the lines of the
  input filtered by that test, so the kept lines stand in their original order. Unless no
  line is kept, the lines of the result are exactly the kept lines. The result never has
  more lines than the input. When every line has the token the result is the empty byte
  sequence; the function has no way to fail.
\<close>

theorem sanitizer_retains:
  "filterNaNMetrics metrics =
     bytesJoin (filter (\<lambda>l. \<not> sublist ''NaN'' l) (bytesSplit metrics newline)) [newline]
   \<and> subseq (filter (\<lambda>l. \<not> sublist ''NaN'' l) (bytesSplit metrics newline))
        (bytesSplit metrics newline)
   \<and> (filter (\<lambda>l. \<not> sublist ''NaN'' l) (bytesSplit metrics newline) \<noteq> [] \<longrightarrow>
        bytesSplit (filterNaNMetrics metrics) newline =
          filter (\<lambda>l. \<not> sublist ''NaN'' l) (bytesSplit metrics newline))
   \<and> length (bytesSplit (filterNaNMetrics metrics) newline)
        \<le> length (bytesSplit metrics newline)
   \<and> ((\<forall>l\<in>set (bytesSplit metrics newline). sublist ''NaN'' l) \<longrightarrow>
        filterNaNMetrics metrics = [])"
proof (intro conjI impI)
  let ?lines = "bytesSplit metrics newline"
  let ?kept = "filter (\<lambda>l. \<not> sublist ''NaN'' l) ?lines"
  show "filterNaNMetrics metrics = bytesJoin ?kept [newline]"
    by (rule filterNaNMetrics_eq)
  show "subseq ?kept ?lines" by simp
  show "bytesSplit (filterNaNMetrics metrics) newline = ?kept" if "?kept \<noteq> []"
    using that by (rule split_filterNaNMetrics)
  show "length (bytesSplit (filterNaNMetrics metrics) newline) \<le> length ?lines"
  proof (cases "?kept = []")
    case True
    then have "filterNaNMetrics metrics = []" by (simp add: filterNaNMetrics_eq)
    then have "length (bytesSplit (filterNaNMetrics metrics) newline) = 1"
      by (simp add: bytesSplit_Nil)
    moreover have "?lines \<noteq> []" by (rule bytesSplit_not_Nil)
    then have "1 \<le> length ?lines" by (cases ?lines) simp_all
    ultimately show ?thesis by simp
  next
    case False
    then show ?thesis by (simp add: split_filterNaNMetrics)
  qed
  show "filterNaNMetrics metrics = []" if "\<forall>l\<in>set ?lines. sublist ''NaN'' l"
  proof -
    from that have "?kept = []" by (simp add: filter_empty_conv)
    then show ?thesis by (simp add: filterNaNMetrics_eq)
  qed
qed

theorem sanitizer_retains_witness:
  "filter (\<lambda>l. \<not> sublist ''NaN'' l) (bytesSplit sampleMetrics newline) \<noteq> []
   \<and> bytesSplit (filterNaNMetrics sampleMetrics) newline = [''a 1'', ''c nan'']
   \<and> filterNaNMetrics sampleMetrics = sampleClean
   \<and> bytesSplit ''x NaN'' newline = [''x NaN'']
   \<and> sublist ''NaN'' ''x NaN''
   \<and> filterNaNMetrics ''x NaN'' = []"
proof -
  have kept: "filter (\<lambda>l. \<not> sublist ''NaN'' l) (bytesSplit sampleMetrics newline)
                = [''a 1'', ''c nan'']"
    by (simp add: bytesSplit_sampleMetrics sublist_code)
  have one: "bytesSplit ''x NaN'' newline = [''x NaN'']"
    by (simp add: bytesSplit_other bytesSplit_Nil newline_def)
  have tok: "sublist ''NaN'' ''x NaN''"
    by (simp add: sublist_code)
  have all: "\<forall>l\<in>set (bytesSplit ''x NaN'' newline). sublist ''NaN'' l"
    by (simp add: one tok)
  note r = sanitizer_retains [of sampleMetrics, unfolded kept]
  have "bytesSplit (filterNaNMetrics sampleMetrics) newline = [''a 1'', ''c nan'']"
    using r [THEN conjunct2, THEN conjunct2, THEN conjunct1] by simp
  moreover have "filterNaNMetrics sampleMetrics = sampleClean"
    using r [THEN conjunct1] by (simp add: sampleClean_def)
  moreover have "filterNaNMetrics ''x NaN'' = []"
    using sanitizer_retains [of "''x NaN''"] all by blast
  ultimately show ?thesis using kept one tok by simp
qed

text \<open>
  Claim C9. The sanitizer is idempotent: sanitizing its own output gives that output
  again. On an input in which the token does not occur at all it is the identity.
\<close>

theorem sanitizer_idempotent:
  "filterNaNMetrics (filterNaNMetrics metrics) = filterNaNMetrics metrics
   \<and> (\<not> sublist ''NaN'' metrics \<longrightarrow> filterNaNMetrics metrics = metrics)"
proof (intro conjI impI)
  let ?kept = "filter (\<lambda>l. \<not> sublist ''NaN'' l) (bytesSplit metrics newline)"
  show "filterNaNMetrics (filterNaNMetrics metrics) = filterNaNMetrics metrics"
  proof (cases "?kept = []")
    case True
    then have "filterNaNMetrics metrics = []" by (simp add: filterNaNMetrics_eq)
    then show ?thesis by (simp add: filterNaNMetrics_eq bytesSplit_Nil)
  next
    case False
    then have "bytesSplit (filterNaNMetrics metrics) newline = ?kept"
      by (rule split_filterNaNMetrics)
    then have "filterNaNMetrics (filterNaNMetrics metrics) =
                 bytesJoin (filter (\<lambda>l. \<not> sublist ''NaN'' l) ?kept) [newline]"
      by (simp add: filterNaNMetrics_eq [of "filterNaNMetrics metrics"])
    also have "filter (\<lambda>l. \<not> sublist ''NaN'' l) ?kept = ?kept" by simp
    finally show ?thesis by (simp add: filterNaNMetrics_eq [of metrics])
  qed
  show "filterNaNMetrics metrics = metrics" if free: "\<not> sublist ''NaN'' metrics"
  proof -
    have "\<not> sublist ''NaN'' l" if "l \<in> set (bytesSplit metrics newline)" for l
      using bytesSplit_line_sublist [OF that] free sublist_order.order_trans by blast
    then have "?kept = bytesSplit metrics newline" by (simp add: filter_id_conv)
    then show ?thesis by (simp add: filterNaNMetrics_eq bytesJoin_bytesSplit)
  qed
qed

theorem sanitizer_idempotent_witness:
  "\<not> sublist ''NaN'' sampleClean \<and> filterNaNMetrics sampleClean = sampleClean"
proof -
  have n: "\<not> sublist ''NaN'' sampleClean"
    by (simp add: sampleClean_def sublist_code newline_def)
  show ?thesis
    using sanitizer_idempotent [of sampleClean] n by simp
qed

section \<open>The partition: one chunk or two halves by line count\<close>

















lemma length_sampleBig: "length sampleBig = 5006"
  by (simp add: sampleBig_def)









section \<open>The narrator and the fetcher, path by path\<close>

lemma getLLMAPIURL_unset:
  "getenv w ''LLM_URL'' = [] \<Longrightarrow>
     getLLMAPIURL w s = (Exit 1, fmtFprintlnStderr [''LLM_URL environment variable not set''] s)"
  by (simp add: getLLMAPIURL_def)

lemma getLLMAPIURL_set:
  "getenv w ''LLM_URL'' \<noteq> [] \<Longrightarrow> getLLMAPIURL w s = (Return (getenv w ''LLM_URL''), s)"
  by (simp add: getLLMAPIURL_def)

lemma analyze_no_url:
  "getenv w ''LLM_URL'' = [] \<Longrightarrow>
     analyzeWithLLM w m l s =
       (Exit 1, fmtFprintlnStderr [''LLM_URL environment variable not set''] s)"
  by (simp add: analyzeWithLLM_def getLLMAPIURL_unset)

lemma analyze_bad_url:
  "getenv w ''LLM_URL'' \<noteq> [] \<Longrightarrow> urlError w (getenv w ''LLM_URL'') = Some e \<Longrightarrow>
     analyzeWithLLM w m l s = (Return (Inl e), s)"
  by (simp add: analyzeWithLLM_def getLLMAPIURL_set httpNewRequest_def)

lemma analyze_no_token:
  "getenv w ''LLM_URL'' \<noteq> [] \<Longrightarrow> urlError w (getenv w ''LLM_URL'') = None \<Longrightarrow>
   getenv w ''LLM_TOKEN'' = [] \<Longrightarrow>
     analyzeWithLLM w m l s =
       (Return (Inl (Error ''LLM_TOKEN environment variable not set'')), s)"
  by (simp add: analyzeWithLLM_def getLLMAPIURL_set httpNewRequest_def)

lemma analyze_sent:
  assumes "llmConfigured w"
  shows "analyzeWithLLM w m l s =
     (let s2 = s\<lparr>issued := issued s @ [llmRequest w m]\<rparr>
      in case clientDo w (issued s) (llmRequest w m) of
           Inl err \<Rightarrow> (Return (Inl err), s2)
         | Inr resp \<Rightarrow>
             if StatusCode resp \<noteq> 200
             then (Return (Inl (Error (''LLM API error: '' @ Status resp @ [newline] @ Body resp))), s2)
             else (case jsonUnmarshal w (Body resp) of
                     Some r \<Rightarrow>
                       if Choices r \<noteq> [] \<and> Text (hd (Choices r)) \<noteq> []
                       then (Return (Inr (Text (hd (Choices r)))), s2)
                       else if Result r \<noteq> [] then (Return (Inr (Result r)), s2)
                       else (Return (Inr (Body resp)), s2)
                   | None \<Rightarrow> (Return (Inr (Body resp)), s2)))"
  using assms
  by (auto simp: analyzeWithLLM_def getLLMAPIURL_set httpNewRequest_def llmConfigured_def
      llmRequest_def Let_def hd_conv_nth split: sum.splits option.splits)


lemma reqMethod_llmRequest: "reqMethod (llmRequest w m) = ''POST''"
  by (simp add: llmRequest_def headerSet_def)

lemma reqMethod_vaultRequest: "reqMethod (vaultRequest w) = ''GET''"
  by (simp add: vaultRequest_def headerSet_def)

lemma fetch_sent:
  assumes "getenv w ''VAULT_TOKEN'' \<noteq> []" and "urlError w (getVaultMetricsURL w) = None"
  shows "fetchVaultMetrics w s =
     (let s' = s\<lparr>issued := issued s @ [vaultRequest w]\<rparr>
      in case clientDo w (issued s) (vaultRequest w) of
           Inl err \<Rightarrow> (([], Some err), s')
         | Inr resp \<Rightarrow> ((Body resp, BodyErr resp), s'))"
  using assms
  by (simp add: fetchVaultMetrics_def httpNewRequest_def vaultRequest_def Let_def)

lemma fetch_None:
  assumes "fetchVaultMetrics w s = ((metrics, None), s0)"
  shows "s0 = s\<lparr>issued := issued s @ [vaultRequest w]\<rparr>"
  using assms
  by (auto simp: fetchVaultMetrics_def httpNewRequest_def vaultRequest_def Let_def
      split: if_splits option.splits sum.splits)

lemma llmConfigured_sample: "llmConfigured (sampleWorld fullEnv vault llm)"
  by (simp add: llmConfigured_def sampleWorld_def envOf_def fullEnv_def)

lemma clientDo_sample_first:
  "clientDo (sampleWorld kvs vault (a # llm)) [] (llmRequest w m) = a"
  by (simp add: sampleWorld_def sampleNet_def reqMethod_llmRequest)




section \<open>Runs of main\<close>

lemma analyze_stdout:
  "analyzeWithLLM w m l (s\<lparr>stdout := x\<rparr>) =
     (fst (analyzeWithLLM w m l s), (snd (analyzeWithLLM w m l s))\<lparr>stdout := x\<rparr>)"
  by (simp add: analyzeWithLLM_def getLLMAPIURL_def fmtFprintlnStderr_def Let_def
      split: sum.splits option.splits)

lemma analyze_keeps_stdout: "stdout (snd (analyzeWithLLM w m l s)) = stdout s"
  by (simp add: analyzeWithLLM_def getLLMAPIURL_def fmtFprintlnStderr_def Let_def
      split: sum.splits option.splits)

lemma analyze_issued:
  "issued (snd (analyzeWithLLM w m l s)) = issued s \<or>
   issued (snd (analyzeWithLLM w m l s)) = issued s @ [llmRequest w m]"
  by (simp add: analyzeWithLLM_def getLLMAPIURL_def fmtFprintlnStderr_def Let_def
      httpNewRequest_def llmRequest_def split: sum.splits option.splits)

lemma analyze_exit_code: "fst (analyzeWithLLM w m l s) = Exit c \<Longrightarrow> c = 1"
  by (simp add: analyzeWithLLM_def getLLMAPIURL_def fmtFprintlnStderr_def Let_def
      split: sum.splits option.splits if_splits)

lemma main_big:
  assumes fetch: "fetchVaultMetrics w initState = ((metrics, None), s0)"
    and big: "5000 < length (filterNaNMetrics metrics)"
  shows "main w =
    (let f = filterNaNMetrics metrics;
         pre1 = banner f @ ''analysis data for first half...'' @ [newline];
         pre2 = pre1 @ ''analysis data for second half...'' @ [newline];
         r1 = analyzeWithLLM w (firstHalf f) [] s0
     in case fst r1 of
          Exit code \<Rightarrow> (code, (snd r1)\<lparr>stdout := pre1\<rparr>)
        | Return (Inl e) \<Rightarrow>
            (1, (snd r1)\<lparr>stdout := pre1 @ ''Error analyzing first half with LLM: '' @
                                     message e @ [newline]\<rparr>)
        | Return (Inr analysis1) \<Rightarrow>
            (let r2 = analyzeWithLLM w (secondHalf f) [] (snd r1)
             in case fst r2 of
                  Exit code \<Rightarrow> (code, (snd r2)\<lparr>stdout := pre2\<rparr>)
                | Return (Inl e) \<Rightarrow>
                    (1, (snd r2)\<lparr>stdout := pre2 @ ''Error analyzing second half with LLM: '' @
                                             message e @ [newline]\<rparr>)
                | Return (Inr analysis2) \<Rightarrow>
                    (0, (snd r2)\<lparr>stdout := pre2 @
                          ''LLM Analysis Result (First Half):'' @ [newline] @
                          analysis1 @ [newline] @
                          [newline] @ ''LLM Analysis Result (Second Half):'' @ [newline] @
                          analysis2 @ [newline]\<rparr>)))"
proof -
  have s0: "stdout s0 = []"
    using fetch_None [OF fetch] by (simp add: initState_def)
  show ?thesis
    using big
    by (simp add: main_def fetch Let_def fmtPrint_def fmtPrintln_def banner_def s0
        analyze_stdout split: proc.splits sum.splits prod.splits)
qed


lemma main_small:
  assumes fetch: "fetchVaultMetrics w initState = ((metrics, None), s0)"
    and small: "length (filterNaNMetrics metrics) \<le> 5000"
  shows "main w =
    (let f = filterNaNMetrics metrics;
         pre = banner f @ ''analysis data for all metrics...'' @ [newline];
         r = analyzeWithLLM w f [] s0
     in case fst r of
          Exit code \<Rightarrow> (code, (snd r)\<lparr>stdout := pre\<rparr>)
        | Return (Inl e) \<Rightarrow>
            (1, (snd r)\<lparr>stdout := pre @ ''Error analyzing metrics with LLM: '' @
                                    message e @ [newline]\<rparr>)
        | Return (Inr analysis) \<Rightarrow>
            (0, (snd r)\<lparr>stdout := pre @ ''LLM Analysis Result:'' @ [newline] @
                                    analysis @ [newline]\<rparr>))"
proof -
  have s0: "stdout s0 = []"
    using fetch_None [OF fetch] by (simp add: initState_def)
  show ?thesis
    using small
    by (simp add: main_def fetch Let_def fmtPrint_def fmtPrintln_def banner_def s0
        analyze_stdout split: proc.splits sum.splits prod.splits)
qed

lemma main_fetch_failed:
  assumes fetch: "fetchVaultMetrics w initState = ((metrics, Some e), s0)"
  shows "main w =
    (1, s0\<lparr>stdout := stdout s0 @ ''Fetching Vault metrics...'' @ [newline] @
                       ''Error fetching metrics: '' @ message e @ [newline]\<rparr>)"
  by (simp add: main_def fetch Let_def fmtPrint_def fmtPrintln_def)

lemma fetch_frame:
  "stdout (snd (fetchVaultMetrics w s)) = stdout s \<and> stderr (snd (fetchVaultMetrics w s)) = stderr s"
  by (simp add: fetchVaultMetrics_def httpNewRequest_def Let_def split: option.splits sum.splits)

lemma filterNaNMetrics_clean:
  assumes free: "\<not> sublist ''NaN'' metrics"
  shows "filterNaNMetrics metrics = metrics"
proof -
  have "\<not> sublist ''NaN'' l" if "l \<in> set (bytesSplit metrics newline)" for l
    using bytesSplit_line_sublist [OF that] free sublist_order.order_trans by blast
  then have "filter (\<lambda>l. \<not> sublist ''NaN'' l) (bytesSplit metrics newline) =
             bytesSplit metrics newline"
    by (simp add: filter_id_conv)
  then show ?thesis by (simp add: filterNaNMetrics_eq bytesJoin_bytesSplit)
qed

lemma no_N_no_token: "CHR ''N'' \<notin> set m \<Longrightarrow> \<not> sublist ''NaN'' m"
  using set_mono_sublist [of "''NaN''" m] by auto

lemma filterNaNMetrics_sampleBig: "filterNaNMetrics sampleBig = sampleBig"
  by (rule filterNaNMetrics_clean [OF no_N_no_token]) (simp add: sampleBig_def newline_def)

lemma filterNaNMetrics_sampleClean: "filterNaNMetrics sampleClean = sampleClean"
  by (rule filterNaNMetrics_clean [OF no_N_no_token]) (simp add: sampleClean_def newline_def)

lemma getenv_sample: "getenv (sampleWorld kvs vault llm) = envOf kvs"
  by (simp add: sampleWorld_def)

lemma urlError_sample: "urlError (sampleWorld kvs vault llm) u = None"
  by (simp add: sampleWorld_def)

lemma clientDo_sample_GET:
  "reqMethod r = ''GET'' \<Longrightarrow> clientDo (sampleWorld kvs vault llm) h r = vault"
  by (simp add: sampleWorld_def sampleNet_def)

lemma fetch_sample:
  assumes "envOf kvs ''VAULT_TOKEN'' \<noteq> []"
  shows "fetchVaultMetrics (sampleWorld kvs (okResponse b) llm) initState =
           ((b, None), initState\<lparr>issued := [vaultRequest (sampleWorld kvs (okResponse b) llm)]\<rparr>)"
  using assms
  by (simp add: fetch_sent getenv_sample urlError_sample clientDo_sample_GET
      reqMethod_vaultRequest okResponse_def initState_def)

lemma token_fullEnv: "envOf fullEnv ''VAULT_TOKEN'' \<noteq> []"
  by (simp add: envOf_def fullEnv_def)

lemma clientDo_sample_POST1:
  "clientDo (sampleWorld kvs vault (a # llm)) [vaultRequest w'] (llmRequest w m) = a"
  by (simp add: sampleWorld_def sampleNet_def reqMethod_llmRequest reqMethod_vaultRequest)

lemma clientDo_sample_POST2:
  "clientDo (sampleWorld kvs vault (a # b # llm)) [vaultRequest w', llmRequest w'' m']
     (llmRequest w m) = b"
  by (simp add: sampleWorld_def sampleNet_def reqMethod_llmRequest reqMethod_vaultRequest)

text \<open>
  Claim C4. Whenever the fetch succeeded, the sanitized payload is above the threshold (so
  there are two chunks) and the narration of the first half does not return a narration
  (it returns an error, or ends the process for want of the address): the run ends with
  exit status 1; the only requests it has issued are the one to the metrics endpoint and
  at most the narration request for the first half, so the call for the second half is
  never made; and standard output holds the progress lines up to the first half and then
  only the report of that first failure, with no analysis result.
\<close>

theorem fail_fast:
  assumes fetch: "fetchVaultMetrics w initState = ((metrics, None), s0)"
    and big: "5000 < length (filterNaNMetrics metrics)"
    and fail: "\<forall>a. fst (analyzeWithLLM w (firstHalf (filterNaNMetrics metrics)) [] s0)
                  \<noteq> Return (Inr a)"
  shows "fst (main w) = 1
    \<and> (issued (snd (main w)) = [vaultRequest w] \<or>
       issued (snd (main w)) =
         [vaultRequest w, llmRequest w (firstHalf (filterNaNMetrics metrics))])
    \<and> stdout (snd (main w)) =
        banner (filterNaNMetrics metrics) @ ''analysis data for first half...'' @ [newline] @
        (case fst (analyzeWithLLM w (firstHalf (filterNaNMetrics metrics)) [] s0) of
           Return (Inl e) \<Rightarrow> ''Error analyzing first half with LLM: '' @ message e @ [newline]
         | _ \<Rightarrow> [])"
proof -
  let ?f = "filterNaNMetrics metrics"
  let ?r = "analyzeWithLLM w (firstHalf ?f) [] s0"
  have s0: "issued s0 = [vaultRequest w]"
    using fetch_None [OF fetch] by (simp add: initState_def)
  have iss: "issued (snd ?r) = [vaultRequest w] \<or>
             issued (snd ?r) = [vaultRequest w, llmRequest w (firstHalf ?f)]"
    using analyze_issued [of w "firstHalf ?f" "[]" s0] by (simp add: s0)
  show ?thesis
  proof (cases "fst ?r")
    case (Exit c)
    then have "c = 1" by (rule analyze_exit_code)
    with Exit iss show ?thesis
      by (simp add: main_big [OF fetch big] Let_def)
  next
    case (Return v)
    show ?thesis
    proof (cases v)
      case (Inl e)
      with Return iss show ?thesis
        by (simp add: main_big [OF fetch big] Let_def)
    next
      case (Inr a)
      with Return fail show ?thesis by simp
    qed
  qed
qed

theorem fail_fast_witness:
  "fetchVaultMetrics (bigWorld [unavailable]) initState =
     ((sampleBig, None), initState\<lparr>issued := [vaultRequest (bigWorld [unavailable])]\<rparr>)
   \<and> 5000 < length (filterNaNMetrics sampleBig)
   \<and> fst (analyzeWithLLM (bigWorld [unavailable]) (firstHalf (filterNaNMetrics sampleBig)) []
            (initState\<lparr>issued := [vaultRequest (bigWorld [unavailable])]\<rparr>)) =
       Return (Inl (Error (''LLM API error: 503 Service Unavailable'' @ [newline] @ ''overloaded'')))
   \<and> fst (main (bigWorld [unavailable])) = 1
   \<and> issued (snd (main (bigWorld [unavailable]))) =
       [vaultRequest (bigWorld [unavailable]),
        llmRequest (bigWorld [unavailable]) (firstHalf sampleBig)]
   \<and> stdout (snd (main (bigWorld [unavailable]))) =
       banner sampleBig @ ''analysis data for first half...'' @ [newline] @
       ''Error analyzing first half with LLM: LLM API error: 503 Service Unavailable'' @
       [newline] @ ''overloaded'' @ [newline]"
proof -
  let ?w = "bigWorld [unavailable]"
  let ?s0 = "initState\<lparr>issued := [vaultRequest ?w]\<rparr>"
  have fetch: "fetchVaultMetrics ?w initState = ((sampleBig, None), ?s0)"
    unfolding bigWorld_def by (rule fetch_sample [OF token_fullEnv])
  have big: "5000 < length (filterNaNMetrics sampleBig)"
    by (simp add: filterNaNMetrics_sampleBig length_sampleBig)
  have cfg: "llmConfigured ?w"
    unfolding bigWorld_def by (rule llmConfigured_sample)
  have r: "analyzeWithLLM ?w (firstHalf sampleBig) [] ?s0 =
       (Return (Inl (Error (''LLM API error: 503 Service Unavailable'' @ [newline] @ ''overloaded''))),
        ?s0\<lparr>issued := [vaultRequest ?w, llmRequest ?w (firstHalf sampleBig)]\<rparr>)"
    by (simp add: analyze_sent [OF cfg] Let_def)
      (simp add: bigWorld_def clientDo_sample_POST1 unavailable_def)
  have fail: "\<forall>a. fst (analyzeWithLLM ?w (firstHalf (filterNaNMetrics sampleBig)) [] ?s0)
                  \<noteq> Return (Inr a)"
    by (simp add: r filterNaNMetrics_sampleBig)
  note t = fail_fast [OF fetch big fail]
  have "fst (main ?w) = 1" using t by blast
  moreover have "stdout (snd (main ?w)) =
       banner sampleBig @ ''analysis data for first half...'' @ [newline] @
       ''Error analyzing first half with LLM: LLM API error: 503 Service Unavailable'' @
       [newline] @ ''overloaded'' @ [newline]"
    using t [THEN conjunct2, THEN conjunct2] by (simp add: r filterNaNMetrics_sampleBig)
  moreover have "issued (snd (main ?w)) = [vaultRequest ?w, llmRequest ?w (firstHalf sampleBig)]"
    by (simp add: main_big [OF fetch big] filterNaNMetrics_sampleBig r Let_def)
  ultimately show ?thesis using fetch big r by (simp add: filterNaNMetrics_sampleBig)
qed

lemma fetch_None_issued:
  "fetchVaultMetrics w initState = ((metrics, None), s0) \<Longrightarrow>
     s0 = \<lparr>issued = [vaultRequest w], stdout = [], stderr = []\<rparr>"
  by (drule fetch_None) (simp add: initState_def)

lemma analyze_status_error:
  assumes "llmConfigured w"
    and "clientDo w (issued s) (llmRequest w m) = Inr resp"
    and "StatusCode resp \<noteq> 200"
  shows "analyzeWithLLM w m l s =
     (Return (Inl (Error (''LLM API error: '' @ Status resp @ [newline] @ Body resp))),
      s\<lparr>issued := issued s @ [llmRequest w m]\<rparr>)"
  using assms by (simp add: analyze_sent Let_def)

lemma analyze_status_ok:
  assumes "llmConfigured w"
    and "clientDo w (issued s) (llmRequest w m) = Inr resp"
    and "StatusCode resp = 200"
  shows "\<exists>a. analyzeWithLLM w m l s =
     (Return (Inr a), s\<lparr>issued := issued s @ [llmRequest w m]\<rparr>)"
  using assms by (simp add: analyze_sent Let_def split: option.splits)

lemma unavailable_status:
  "unavailable = Inr \<lparr>StatusCode = 503, Status = ''503 Service Unavailable'',
                        Body = ''overloaded'', BodyErr = None\<rparr>"
  by (simp add: unavailable_def)

text \<open>
  Claim C6. With the narrator configured, for every narration request whose response has
  a status other than 200 (so for every non-success status), \<open>analyzeWithLLM\<close> returns
  an error and no narration; the error's text carries the status line and the raw
  response body. The error is fatal for the run: whether it comes from the only chunk,
  from the first half or (after a successful first half) from the second half, main ends
  with exit status 1 right after that request, and the last thing on standard output is
  the report of that error with status and body.
\<close>

theorem narrator_status_error:
  assumes cfg: "llmConfigured w"
  shows
   "(\<forall>m l s resp.
        clientDo w (issued s) (llmRequest w m) = Inr resp \<and> StatusCode resp \<noteq> 200 \<longrightarrow>
        analyzeWithLLM w m l s =
          (Return (Inl (Error (''LLM API error: '' @ Status resp @ [newline] @ Body resp))),
           s\<lparr>issued := issued s @ [llmRequest w m]\<rparr>))
    \<and> (\<forall>metrics s0 resp.
        fetchVaultMetrics w initState = ((metrics, None), s0) \<and>
        clientDo w [vaultRequest w]
          (llmRequest w (hd (partition_chunks (filterNaNMetrics metrics)))) = Inr resp \<and>
        StatusCode resp \<noteq> 200 \<longrightarrow>
        fst (main w) = 1
        \<and> issued (snd (main w)) =
            [vaultRequest w, llmRequest w (hd (partition_chunks (filterNaNMetrics metrics)))]
        \<and> stdout (snd (main w)) =
            banner (filterNaNMetrics metrics) @
            (if 5000 < length (filterNaNMetrics metrics)
             then ''analysis data for first half...'' @ [newline] @
                  ''Error analyzing first half with LLM: ''
             else ''analysis data for all metrics...'' @ [newline] @
                  ''Error analyzing metrics with LLM: '') @
            ''LLM API error: '' @ Status resp @ [newline] @ Body resp @ [newline])
    \<and> (\<forall>metrics s0 resp1 resp2.
        fetchVaultMetrics w initState = ((metrics, None), s0) \<and>
        5000 < length (filterNaNMetrics metrics) \<and>
        clientDo w [vaultRequest w]
          (llmRequest w (firstHalf (filterNaNMetrics metrics))) = Inr resp1 \<and>
        StatusCode resp1 = 200 \<and>
        clientDo w [vaultRequest w, llmRequest w (firstHalf (filterNaNMetrics metrics))]
          (llmRequest w (secondHalf (filterNaNMetrics metrics))) = Inr resp2 \<and>
        StatusCode resp2 \<noteq> 200 \<longrightarrow>
        fst (main w) = 1
        \<and> issued (snd (main w)) =
            [vaultRequest w, llmRequest w (firstHalf (filterNaNMetrics metrics)),
             llmRequest w (secondHalf (filterNaNMetrics metrics))]
        \<and> stdout (snd (main w)) =
            banner (filterNaNMetrics metrics) @
            ''analysis data for first half...'' @ [newline] @
            ''analysis data for second half...'' @ [newline] @
            ''Error analyzing second half with LLM: '' @
            ''LLM API error: '' @ Status resp2 @ [newline] @ Body resp2 @ [newline])"
proof (intro conjI allI impI)
  fix m l :: bytes and s :: state and resp
  assume "clientDo w (issued s) (llmRequest w m) = Inr resp \<and> StatusCode resp \<noteq> 200"
  then show "analyzeWithLLM w m l s =
          (Return (Inl (Error (''LLM API error: '' @ Status resp @ [newline] @ Body resp))),
           s\<lparr>issued := issued s @ [llmRequest w m]\<rparr>)"
    using analyze_status_error [OF cfg] by blast
next
  fix metrics s0 resp
  let ?f = "filterNaNMetrics metrics"
  assume h: "fetchVaultMetrics w initState = ((metrics, None), s0) \<and>
        clientDo w [vaultRequest w] (llmRequest w (hd (partition_chunks ?f))) = Inr resp \<and>
        StatusCode resp \<noteq> 200"
  then have fetch: "fetchVaultMetrics w initState = ((metrics, None), s0)" by simp
  have s0: "s0 = \<lparr>issued = [vaultRequest w], stdout = [], stderr = []\<rparr>"
    using fetch by (rule fetch_None_issued)
  have a: "analyzeWithLLM w (hd (partition_chunks ?f)) [] s0 =
     (Return (Inl (Error (''LLM API error: '' @ Status resp @ [newline] @ Body resp))),
      s0\<lparr>issued := issued s0 @ [llmRequest w (hd (partition_chunks ?f))]\<rparr>)"
    using h by (intro analyze_status_error [OF cfg]) (simp_all add: s0)
  have r: "fst (main w) = 1
        \<and> issued (snd (main w)) = [vaultRequest w, llmRequest w (hd (partition_chunks ?f))]
        \<and> stdout (snd (main w)) =
            banner ?f @
            (if 5000 < length ?f
             then ''analysis data for first half...'' @ [newline] @
                  ''Error analyzing first half with LLM: ''
             else ''analysis data for all metrics...'' @ [newline] @
                  ''Error analyzing metrics with LLM: '') @
            ''LLM API error: '' @ Status resp @ [newline] @ Body resp @ [newline]"
  proof (cases "5000 < length ?f")
    case True
    then have c: "hd (partition_chunks ?f) = firstHalf ?f" by (simp add: partition_chunks_def)
    show ?thesis
      using a True unfolding c by (simp add: main_big [OF fetch True] Let_def s0)
  next
    case False
    then have small: "length ?f \<le> 5000" by simp
    have c: "hd (partition_chunks ?f) = ?f" using False by (simp add: partition_chunks_def)
    show ?thesis
      using a False unfolding c by (simp add: main_small [OF fetch small] Let_def s0)
  qed
  show "fst (main w) = 1" using r by blast
  show "issued (snd (main w)) = [vaultRequest w, llmRequest w (hd (partition_chunks ?f))]"
    using r by blast
  show "stdout (snd (main w)) =
            banner ?f @
            (if 5000 < length ?f
             then ''analysis data for first half...'' @ [newline] @
                  ''Error analyzing first half with LLM: ''
             else ''analysis data for all metrics...'' @ [newline] @
                  ''Error analyzing metrics with LLM: '') @
            ''LLM API error: '' @ Status resp @ [newline] @ Body resp @ [newline]"
    using r by blast
next
  fix metrics s0 resp1 resp2
  let ?f = "filterNaNMetrics metrics"
  assume h: "fetchVaultMetrics w initState = ((metrics, None), s0) \<and>
        5000 < length ?f \<and>
        clientDo w [vaultRequest w] (llmRequest w (firstHalf ?f)) = Inr resp1 \<and>
        StatusCode resp1 = 200 \<and>
        clientDo w [vaultRequest w, llmRequest w (firstHalf ?f)]
          (llmRequest w (secondHalf ?f)) = Inr resp2 \<and>
        StatusCode resp2 \<noteq> 200"
  then have fetch: "fetchVaultMetrics w initState = ((metrics, None), s0)"
    and big: "5000 < length ?f" by simp_all
  have s0: "s0 = \<lparr>issued = [vaultRequest w], stdout = [], stderr = []\<rparr>"
    using fetch by (rule fetch_None_issued)
  obtain a1 where a1: "analyzeWithLLM w (firstHalf ?f) [] s0 =
      (Return (Inr a1), s0\<lparr>issued := issued s0 @ [llmRequest w (firstHalf ?f)]\<rparr>)"
    using analyze_status_ok [OF cfg, of s0 "firstHalf ?f" resp1 "[]"] h by (auto simp: s0)
  have a2: "analyzeWithLLM w (secondHalf ?f) []
              (s0\<lparr>issued := issued s0 @ [llmRequest w (firstHalf ?f)]\<rparr>) =
     (Return (Inl (Error (''LLM API error: '' @ Status resp2 @ [newline] @ Body resp2))),
      s0\<lparr>issued := issued s0 @ [llmRequest w (firstHalf ?f), llmRequest w (secondHalf ?f)]\<rparr>)"
    using h analyze_status_error [OF cfg,
        of "s0\<lparr>issued := issued s0 @ [llmRequest w (firstHalf ?f)]\<rparr>" "secondHalf ?f" resp2 "[]"]
    by (simp add: s0)
  have r: "fst (main w) = 1
        \<and> issued (snd (main w)) =
            [vaultRequest w, llmRequest w (firstHalf ?f), llmRequest w (secondHalf ?f)]
        \<and> stdout (snd (main w)) =
            banner ?f @
            ''analysis data for first half...'' @ [newline] @
            ''analysis data for second half...'' @ [newline] @
            ''Error analyzing second half with LLM: '' @
            ''LLM API error: '' @ Status resp2 @ [newline] @ Body resp2 @ [newline]"
    using a1 a2 by (simp add: main_big [OF fetch big] Let_def s0)
  show "fst (main w) = 1" using r by blast
  show "issued (snd (main w)) =
            [vaultRequest w, llmRequest w (firstHalf ?f), llmRequest w (secondHalf ?f)]"
    using r by blast
  show "stdout (snd (main w)) =
            banner ?f @
            ''analysis data for first half...'' @ [newline] @
            ''analysis data for second half...'' @ [newline] @
            ''Error analyzing second half with LLM: '' @
            ''LLM API error: '' @ Status resp2 @ [newline] @ Body resp2 @ [newline]"
    using r by blast
qed

theorem narrator_status_error_witness:
  "llmConfigured (smallWorld [unavailable])
   \<and> analyzeWithLLM (smallWorld [unavailable]) sampleClean [] initState =
       (Return (Inl (Error (''LLM API error: 503 Service Unavailable'' @ [newline] @
                            ''overloaded''))),
        initState\<lparr>issued := [llmRequest (smallWorld [unavailable]) sampleClean]\<rparr>)
   \<and> fetchVaultMetrics (smallWorld [unavailable]) initState =
       ((sampleClean, None), initState\<lparr>issued := [vaultRequest (smallWorld [unavailable])]\<rparr>)
   \<and> fst (main (smallWorld [unavailable])) = 1
   \<and> stdout (snd (main (smallWorld [unavailable]))) =
       banner sampleClean @ ''analysis data for all metrics...'' @ [newline] @
       ''Error analyzing metrics with LLM: LLM API error: 503 Service Unavailable'' @
       [newline] @ ''overloaded'' @ [newline]
   \<and> llmConfigured (bigWorld [okResponse choiceBody, unavailable])
   \<and> fst (main (bigWorld [okResponse choiceBody, unavailable])) = 1
   \<and> issued (snd (main (bigWorld [okResponse choiceBody, unavailable]))) =
       [vaultRequest (bigWorld [okResponse choiceBody, unavailable]),
        llmRequest (bigWorld [okResponse choiceBody, unavailable]) (firstHalf sampleBig),
        llmRequest (bigWorld [okResponse choiceBody, unavailable]) (secondHalf sampleBig)]
   \<and> stdout (snd (main (bigWorld [okResponse choiceBody, unavailable]))) =
       banner sampleBig @ ''analysis data for first half...'' @ [newline] @
       ''analysis data for second half...'' @ [newline] @
       ''Error analyzing second half with LLM: LLM API error: 503 Service Unavailable'' @
       [newline] @ ''overloaded'' @ [newline]"
proof -
  let ?v = "smallWorld [unavailable]"
  let ?b = "bigWorld [okResponse choiceBody, unavailable]"
  let ?resp = "\<lparr>StatusCode = 503, Status = ''503 Service Unavailable'',
                Body = ''overloaded'', BodyErr = None\<rparr>"
  have cfgv: "llmConfigured ?v" unfolding smallWorld_def by (rule llmConfigured_sample)
  have cfgb: "llmConfigured ?b" unfolding bigWorld_def by (rule llmConfigured_sample)
  have fv: "fetchVaultMetrics ?v initState =
              ((sampleClean, None), initState\<lparr>issued := [vaultRequest ?v]\<rparr>)"
    unfolding smallWorld_def by (rule fetch_sample [OF token_fullEnv])
  have fb: "fetchVaultMetrics ?b initState =
              ((sampleBig, None), initState\<lparr>issued := [vaultRequest ?b]\<rparr>)"
    unfolding bigWorld_def by (rule fetch_sample [OF token_fullEnv])
  have small: "\<not> 5000 < length sampleClean" by (simp add: sampleClean_def)
  have big: "5000 < length sampleBig" by (simp add: length_sampleBig)
  have d0: "clientDo ?v (issued initState) (llmRequest ?v sampleClean) = Inr ?resp"
    by (simp add: smallWorld_def initState_def clientDo_sample_first unavailable_status)
  have d1: "clientDo ?v [vaultRequest ?v]
              (llmRequest ?v (hd (partition_chunks (filterNaNMetrics sampleClean)))) = Inr ?resp"
    by (simp add: smallWorld_def clientDo_sample_POST1 unavailable_status)
  have d2: "clientDo ?b [vaultRequest ?b]
              (llmRequest ?b (firstHalf (filterNaNMetrics sampleBig))) =
            Inr \<lparr>StatusCode = 200, Status = ''200 OK'', Body = choiceBody, BodyErr = None\<rparr>"
    by (simp add: bigWorld_def clientDo_sample_POST1 okResponse_def)
  have d3: "clientDo ?b [vaultRequest ?b, llmRequest ?b (firstHalf (filterNaNMetrics sampleBig))]
              (llmRequest ?b (secondHalf (filterNaNMetrics sampleBig))) = Inr ?resp"
    by (simp add: bigWorld_def clientDo_sample_POST2 unavailable_status)
  note t1 = narrator_status_error [OF cfgv, THEN conjunct1, rule_format,
      of initState sampleClean ?resp "[]"]
  note t2 = narrator_status_error [OF cfgv, THEN conjunct2, THEN conjunct1, rule_format,
      of sampleClean _ ?resp]
  note t3 = narrator_status_error [OF cfgb, THEN conjunct2, THEN conjunct2, rule_format,
      of sampleBig _ _ ?resp]
  have a: "analyzeWithLLM ?v sampleClean [] initState =
       (Return (Inl (Error (''LLM API error: 503 Service Unavailable'' @ [newline] @
                            ''overloaded''))),
        initState\<lparr>issued := [llmRequest ?v sampleClean]\<rparr>)"
    using t1 d0 by (simp add: initState_def)
  have m1: "fst (main ?v) = 1"
    and m2: "stdout (snd (main ?v)) =
       banner sampleClean @ ''analysis data for all metrics...'' @ [newline] @
       ''Error analyzing metrics with LLM: LLM API error: 503 Service Unavailable'' @
       [newline] @ ''overloaded'' @ [newline]"
    using t2 fv d1 small by (simp_all add: filterNaNMetrics_sampleClean)
  have m3: "fst (main ?b) = 1"
    and m4: "issued (snd (main ?b)) =
       [vaultRequest ?b, llmRequest ?b (firstHalf sampleBig),
        llmRequest ?b (secondHalf sampleBig)]"
    and m5: "stdout (snd (main ?b)) =
       banner sampleBig @ ''analysis data for first half...'' @ [newline] @
       ''analysis data for second half...'' @ [newline] @
       ''Error analyzing second half with LLM: LLM API error: 503 Service Unavailable'' @
       [newline] @ ''overloaded'' @ [newline]"
    using t3 fb d2 d3 big by (simp_all add: filterNaNMetrics_sampleBig)
  show ?thesis
    using cfgv cfgb a fv m1 m2 m3 m4 m5 by simp
qed

section \<open>Configuration: when the variables are looked at\<close>

lemma fetch_no_token:
  "getenv w ''VAULT_TOKEN'' = [] \<Longrightarrow>
     fetchVaultMetrics w s =
       (([], Some (Error ''VAULT_TOKEN environment variable not set'')), s)"
  by (simp add: fetchVaultMetrics_def)

lemma fetch_Some_frame:
  assumes "fetchVaultMetrics w initState = ((metrics, Some e), s0)"
  shows "stdout s0 = [] \<and> stderr s0 = []"
  using fetch_frame [of w initState] assms by (simp add: initState_def)

lemma main_no_url:
  assumes nourl: "getenv w ''LLM_URL'' = []"
    and fetch: "fetchVaultMetrics w initState = ((metrics, None), s0)"
  shows "main w =
     (1, \<lparr>issued = [vaultRequest w],
          stdout = banner (filterNaNMetrics metrics) @
                   (if 5000 < length (filterNaNMetrics metrics)
                    then ''analysis data for first half...''
                    else ''analysis data for all metrics...'') @ [newline],
          stderr = ''LLM_URL environment variable not set'' @ [newline]\<rparr>)"
proof (cases "5000 < length (filterNaNMetrics metrics)")
  case True
  show ?thesis
    using True
    by (simp add: main_big [OF fetch True] Let_def analyze_no_url [OF nourl]
        fetch_None_issued [OF fetch] fmtFprintlnStderr_def)
next
  case False
  then have small: "length (filterNaNMetrics metrics) \<le> 5000" by simp
  show ?thesis
    using False
    by (simp add: main_small [OF fetch small] Let_def analyze_no_url [OF nourl]
        fetch_None_issued [OF fetch] fmtFprintlnStderr_def)
qed

lemma nourl_noURLWorld: "getenv noURLWorld ''LLM_URL'' = []"
  by (simp add: noURLWorld_def getenv_sample envOf_def)

lemma nourl_bareWorld: "getenv bareWorld ''LLM_URL'' = []"
  by (simp add: bareWorld_def getenv_sample envOf_def)

lemma notoken_bareWorld: "getenv bareWorld ''VAULT_TOKEN'' = []"
  by (simp add: bareWorld_def getenv_sample envOf_def)

lemma fetch_noURLWorld:
  "fetchVaultMetrics noURLWorld initState =
     ((sampleClean, None), initState\<lparr>issued := [vaultRequest noURLWorld]\<rparr>)"
  unfolding noURLWorld_def by (rule fetch_sample) (simp add: envOf_def)

text \<open>
  Claim C7 as stated says that an absent \<open>LLM_URL\<close> ends the process at once, before
  any stage of the pipeline has run and whether or not narration is ever reached: the run
  would be nothing but the message on standard error and exit status 1. It is not so. In
  \<open>noURLWorld\<close> the variable is absent and the run first issues the request to the
  metrics endpoint, prints the fetch and length lines and the progress line of the
  narration, and only then ends inside the narrator. In \<open>bareWorld\<close> the variable is
  absent as well, the fetch fails for want of the credential, and the run ends with the
  fetch error: the address is never looked at and nothing is written to standard error.
\<close>

theorem llm_url_eager_counterexample:
  "getenv noURLWorld ''LLM_URL'' = []
   \<and> main noURLWorld =
       (1, \<lparr>issued = [vaultRequest noURLWorld],
            stdout = banner sampleClean @ ''analysis data for all metrics...'' @ [newline],
            stderr = ''LLM_URL environment variable not set'' @ [newline]\<rparr>)
   \<and> main noURLWorld \<noteq>
       (1, fmtFprintlnStderr [''LLM_URL environment variable not set''] initState)
   \<and> getenv bareWorld ''LLM_URL'' = []
   \<and> main bareWorld =
       (1, \<lparr>issued = [],
            stdout = ''Fetching Vault metrics...'' @ [newline] @
                     ''Error fetching metrics: VAULT_TOKEN environment variable not set'' @
                     [newline],
            stderr = []\<rparr>)"
proof -
  have small: "\<not> 5000 < length sampleClean" by (simp add: sampleClean_def)
  have m: "main noURLWorld =
       (1, \<lparr>issued = [vaultRequest noURLWorld],
            stdout = banner sampleClean @ ''analysis data for all metrics...'' @ [newline],
            stderr = ''LLM_URL environment variable not set'' @ [newline]\<rparr>)"
    using small
    by (simp add: main_no_url [OF nourl_noURLWorld fetch_noURLWorld]
        filterNaNMetrics_sampleClean)
  have d: "main noURLWorld \<noteq>
       (1, fmtFprintlnStderr [''LLM_URL environment variable not set''] initState)"
    by (simp add: m fmtFprintlnStderr_def initState_def)
  have b: "main bareWorld =
       (1, \<lparr>issued = [],
            stdout = ''Fetching Vault metrics...'' @ [newline] @
                     ''Error fetching metrics: VAULT_TOKEN environment variable not set'' @
                     [newline],
            stderr = []\<rparr>)"
    by (simp add: main_fetch_failed [OF fetch_no_token [OF notoken_bareWorld]] initState_def)
  show ?thesis using nourl_noURLWorld nourl_bareWorld m d b by blast
qed

text \<open>
  Claim C7, amended. If \<open>LLM_URL\<close> is absent, every call of \<open>analyzeWithLLM\<close> ends
  the process with exit status 1 and the message on standard error, before a narration
  request is built or sent and before the bearer credential is looked at. The check is
  made there and nowhere else, so it is lazy: when the fetch succeeds the run has already
  issued the request to the metrics endpoint, sanitized the payload and printed its
  progress lines when it ends at the first narration call; when the fetch fails the run
  ends with the fetch error and the address is never checked.
\<close>

theorem llm_url_checked_lazily:
  assumes nourl: "getenv w ''LLM_URL'' = []"
  shows
   "(\<forall>m l s. analyzeWithLLM w m l s =
        (Exit 1, s\<lparr>stderr := stderr s @ ''LLM_URL environment variable not set'' @ [newline]\<rparr>))
    \<and> (\<forall>metrics s0. fetchVaultMetrics w initState = ((metrics, None), s0) \<longrightarrow>
         main w =
           (1, \<lparr>issued = [vaultRequest w],
                stdout = banner (filterNaNMetrics metrics) @
                         (if 5000 < length (filterNaNMetrics metrics)
                          then ''analysis data for first half...''
                          else ''analysis data for all metrics...'') @ [newline],
                stderr = ''LLM_URL environment variable not set'' @ [newline]\<rparr>))
    \<and> (\<forall>metrics e s0. fetchVaultMetrics w initState = ((metrics, Some e), s0) \<longrightarrow>
         fst (main w) = 1
         \<and> issued (snd (main w)) = issued s0
         \<and> stderr (snd (main w)) = []
         \<and> stdout (snd (main w)) =
             ''Fetching Vault metrics...'' @ [newline] @
             ''Error fetching metrics: '' @ message e @ [newline])"
proof (intro conjI allI impI)
  fix m l :: bytes and s :: state
  show "analyzeWithLLM w m l s =
        (Exit 1, s\<lparr>stderr := stderr s @ ''LLM_URL environment variable not set'' @ [newline]\<rparr>)"
    by (simp add: analyze_no_url [OF nourl] fmtFprintlnStderr_def)
next
  fix metrics s0
  assume "fetchVaultMetrics w initState = ((metrics, None), s0)"
  then show "main w =
           (1, \<lparr>issued = [vaultRequest w],
                stdout = banner (filterNaNMetrics metrics) @
                         (if 5000 < length (filterNaNMetrics metrics)
                          then ''analysis data for first half...''
                          else ''analysis data for all metrics...'') @ [newline],
                stderr = ''LLM_URL environment variable not set'' @ [newline]\<rparr>)"
    by (rule main_no_url [OF nourl])
next
  fix metrics e s0
  assume fetch: "fetchVaultMetrics w initState = ((metrics, Some e), s0)"
  note fr = fetch_Some_frame [OF fetch]
  show "fst (main w) = 1" by (simp add: main_fetch_failed [OF fetch])
  show "issued (snd (main w)) = issued s0" by (simp add: main_fetch_failed [OF fetch])
  show "stderr (snd (main w)) = []" using fr by (simp add: main_fetch_failed [OF fetch])
  show "stdout (snd (main w)) =
             ''Fetching Vault metrics...'' @ [newline] @
             ''Error fetching metrics: '' @ message e @ [newline]"
    using fr by (simp add: main_fetch_failed [OF fetch])
qed

theorem llm_url_checked_lazily_witness:
  "getenv noURLWorld ''LLM_URL'' = []
   \<and> analyzeWithLLM noURLWorld sampleClean [] initState =
       (Exit 1, initState\<lparr>stderr := ''LLM_URL environment variable not set'' @ [newline]\<rparr>)
   \<and> fetchVaultMetrics noURLWorld initState =
       ((sampleClean, None), initState\<lparr>issued := [vaultRequest noURLWorld]\<rparr>)
   \<and> fst (main noURLWorld) = 1
   \<and> issued (snd (main noURLWorld)) = [vaultRequest noURLWorld]
   \<and> stderr (snd (main noURLWorld)) = ''LLM_URL environment variable not set'' @ [newline]
   \<and> getenv bareWorld ''LLM_URL'' = []
   \<and> fetchVaultMetrics bareWorld initState =
       (([], Some (Error ''VAULT_TOKEN environment variable not set'')), initState)
   \<and> fst (main bareWorld) = 1
   \<and> stderr (snd (main bareWorld)) = []"
proof -
  note t = llm_url_checked_lazily [OF nourl_noURLWorld]
  note u = llm_url_checked_lazily [OF nourl_bareWorld]
  have fb: "fetchVaultMetrics bareWorld initState =
       (([], Some (Error ''VAULT_TOKEN environment variable not set'')), initState)"
    by (rule fetch_no_token [OF notoken_bareWorld])
  have a: "analyzeWithLLM noURLWorld sampleClean [] initState =
       (Exit 1, initState\<lparr>stderr := ''LLM_URL environment variable not set'' @ [newline]\<rparr>)"
    using t [THEN conjunct1, rule_format, of sampleClean "[]" initState]
    by (simp add: initState_def)
  have m: "main noURLWorld =
           (1, \<lparr>issued = [vaultRequest noURLWorld],
                stdout = banner (filterNaNMetrics sampleClean) @
                         (if 5000 < length (filterNaNMetrics sampleClean)
                          then ''analysis data for first half...''
                          else ''analysis data for all metrics...'') @ [newline],
                stderr = ''LLM_URL environment variable not set'' @ [newline]\<rparr>)"
    using t [THEN conjunct2, THEN conjunct1, rule_format, OF fetch_noURLWorld] .
  have b: "fst (main bareWorld) = 1 \<and> stderr (snd (main bareWorld)) = []"
    using u [THEN conjunct2, THEN conjunct2, rule_format, OF fb] by blast
  show ?thesis
    using nourl_noURLWorld nourl_bareWorld a fetch_noURLWorld fb b by (simp add: m)
qed

section \<open>The fetcher\<close>

text \<open>
  Claim C8. For every fetch in which the transport succeeds (the credential is set, the
  address parses, \<open>client.Do\<close> gives a response and reading its body gives no error),
  \<open>fetchVaultMetrics\<close> returns the whole response body as it is, with a nil error,
  whatever the status code of the response. When \<open>VAULT_ADDR\<close> is unset the request is a
  GET to \<open>http://127.0.0.1:8200/v1/sys/metrics?format=prometheus\<close>.
\<close>

theorem fetch_returns_body:
  "(getenv w ''VAULT_TOKEN'' \<noteq> [] \<and> urlError w (getVaultMetricsURL w) = None \<and>
    clientDo w (issued s) (vaultRequest w) = Inr resp \<and> BodyErr resp = None \<longrightarrow>
      fetchVaultMetrics w s = ((Body resp, None), s\<lparr>issued := issued s @ [vaultRequest w]\<rparr>))
   \<and> (getenv w ''VAULT_ADDR'' = [] \<longrightarrow>
      getVaultMetricsURL w = ''http://127.0.0.1:8200/v1/sys/metrics?format=prometheus''
      \<and> reqURL (vaultRequest w) = ''http://127.0.0.1:8200/v1/sys/metrics?format=prometheus''
      \<and> reqMethod (vaultRequest w) = ''GET'')"
proof (intro conjI impI)
  assume "getenv w ''VAULT_TOKEN'' \<noteq> [] \<and> urlError w (getVaultMetricsURL w) = None \<and>
    clientDo w (issued s) (vaultRequest w) = Inr resp \<and> BodyErr resp = None"
  then show "fetchVaultMetrics w s =
      ((Body resp, None), s\<lparr>issued := issued s @ [vaultRequest w]\<rparr>)"
    by (simp add: fetch_sent Let_def)
next
  assume unset: "getenv w ''VAULT_ADDR'' = []"
  show "getVaultMetricsURL w = ''http://127.0.0.1:8200/v1/sys/metrics?format=prometheus''"
    using unset by (simp add: getVaultMetricsURL_def)
  show "reqURL (vaultRequest w) = ''http://127.0.0.1:8200/v1/sys/metrics?format=prometheus''"
    using unset by (simp add: vaultRequest_def headerSet_def getVaultMetricsURL_def)
  show "reqMethod (vaultRequest w) = ''GET''"
    by (rule reqMethod_vaultRequest)
qed

theorem fetch_returns_body_witness:
  "getenv (sampleWorld fullEnv unavailable []) ''VAULT_TOKEN'' \<noteq> []
   \<and> urlError (sampleWorld fullEnv unavailable [])
        (getVaultMetricsURL (sampleWorld fullEnv unavailable [])) = None
   \<and> clientDo (sampleWorld fullEnv unavailable []) (issued initState)
        (vaultRequest (sampleWorld fullEnv unavailable [])) =
       Inr \<lparr>StatusCode = 503, Status = ''503 Service Unavailable'',
            Body = ''overloaded'', BodyErr = None\<rparr>
   \<and> fetchVaultMetrics (sampleWorld fullEnv unavailable []) initState =
       ((''overloaded'', None),
        initState\<lparr>issued := [vaultRequest (sampleWorld fullEnv unavailable [])]\<rparr>)
   \<and> getenv (sampleWorld fullEnv unavailable []) ''VAULT_ADDR'' = []
   \<and> reqURL (vaultRequest (sampleWorld fullEnv unavailable [])) =
       ''http://127.0.0.1:8200/v1/sys/metrics?format=prometheus''"
proof -
  let ?w = "sampleWorld fullEnv unavailable []"
  let ?resp = "\<lparr>StatusCode = 503, Status = ''503 Service Unavailable'',
                Body = ''overloaded'', BodyErr = None\<rparr>"
  have tok: "getenv ?w ''VAULT_TOKEN'' \<noteq> []"
    by (simp add: getenv_sample token_fullEnv)
  have url: "urlError ?w (getVaultMetricsURL ?w) = None"
    by (rule urlError_sample)
  have net: "clientDo ?w (issued initState) (vaultRequest ?w) = Inr ?resp"
    by (simp add: clientDo_sample_GET reqMethod_vaultRequest unavailable_status)
  have addr: "getenv ?w ''VAULT_ADDR'' = []"
    by (simp add: getenv_sample envOf_def fullEnv_def)
  have "fetchVaultMetrics ?w initState =
          ((''overloaded'', None), initState\<lparr>issued := [vaultRequest ?w]\<rparr>)"
    using fetch_returns_body [of ?w initState ?resp, THEN conjunct1] tok url net
    by (simp add: initState_def)
  moreover have "reqURL (vaultRequest ?w) =
       ''http://127.0.0.1:8200/v1/sys/metrics?format=prometheus''"
    using fetch_returns_body [of ?w initState ?resp, THEN conjunct2] addr by blast
  ultimately show ?thesis using tok url net addr by simp
qed

text \<open>
  Claim C10. When \<open>VAULT_TOKEN\<close> is absent, \<open>fetchVaultMetrics\<close> returns the
  configuration error and leaves the state as it was: no request is built or handed to
  the network. The run that follows prints the error, ends with exit status 1 and has
  issued no request at all.
\<close>

theorem fetch_without_token:
  "getenv w ''VAULT_TOKEN'' = [] \<longrightarrow>
     fetchVaultMetrics w s =
       (([], Some (Error ''VAULT_TOKEN environment variable not set'')), s)
     \<and> issued (snd (fetchVaultMetrics w s)) = issued s
     \<and> main w =
         (1, \<lparr>issued = [],
              stdout = ''Fetching Vault metrics...'' @ [newline] @
                       ''Error fetching metrics: VAULT_TOKEN environment variable not set'' @
                       [newline],
              stderr = []\<rparr>)"
proof (intro impI conjI)
  assume unset: "getenv w ''VAULT_TOKEN'' = []"
  show "fetchVaultMetrics w s =
       (([], Some (Error ''VAULT_TOKEN environment variable not set'')), s)"
    by (rule fetch_no_token [OF unset])
  show "issued (snd (fetchVaultMetrics w s)) = issued s"
    by (simp add: fetch_no_token [OF unset])
  show "main w =
         (1, \<lparr>issued = [],
              stdout = ''Fetching Vault metrics...'' @ [newline] @
                       ''Error fetching metrics: VAULT_TOKEN environment variable not set'' @
                       [newline],
              stderr = []\<rparr>)"
    by (simp add: main_fetch_failed [OF fetch_no_token [OF unset]] initState_def)
qed

theorem fetch_without_token_witness:
  "getenv bareWorld ''VAULT_TOKEN'' = []
   \<and> fetchVaultMetrics bareWorld initState =
       (([], Some (Error ''VAULT_TOKEN environment variable not set'')), initState)
   \<and> fst (main bareWorld) = 1
   \<and> issued (snd (main bareWorld)) = []"
proof -
  note t = fetch_without_token [of bareWorld initState, rule_format, OF notoken_bareWorld]
  have "fetchVaultMetrics bareWorld initState =
       (([], Some (Error ''VAULT_TOKEN environment variable not set'')), initState)"
    using t by blast
  moreover have "fst (main bareWorld) = 1" and "issued (snd (main bareWorld)) = []"
    using t by simp_all
  ultimately show ?thesis using notoken_bareWorld by simp
qed

end
